theory Spec2Isabelle
  imports Main "HOL-Library.Word" "HOL-Library.Signed_Division"
begin

unbundle bit_operations_syntax

section \<open>Data model\<close>

text \<open>
  The proof-of-work engine of \<^verbatim>\<open>src/src/pow.cpp\<close>. A target is an unsigned 256-bit
  integer (\<^verbatim>\<open>uint256\<close>), a compact target an \<^verbatim>\<open>unsigned int\<close> of 32 bits. The signed
  quantities of the source (\<^verbatim>\<open>int\<close>, \<^verbatim>\<open>int64_t\<close>: heights, timestamps, timespans) are
  modelled as unbounded integers with C++'s truncating division and remainder
  (\<open>sdiv\<close>, \<open>smod\<close>); signed overflow is undefined behaviour in the source and is not
  modelled.
\<close>

type_synonym uint256 = "256 word"
type_synonym uint32 = "32 word"

text \<open>
  What a call can do other than return a value: a division by zero, the dereference of a
  null block-index pointer, a failed \<^verbatim>\<open>assert\<close>, and control that reaches the end of a
  non-void function without a \<^verbatim>\<open>return\<close>.
\<close>

datatype error = DivisionByZero | NullDereference | AssertionFailed | NoReturnValue

text \<open>
  Modelled from the spec: the network identity enumeration (declared in
  \<^verbatim>\<open>chainparamsbase.h\<close>, not under src/). The spec lists \<open>{MAIN, TESTNET, REGTEST}\<close>;
  \<open>network_value\<close> gives the enumerators the integers C++ assigns in that order.
\<close>

datatype Network = MAIN | TESTNET | REGTEST

fun network_value :: "Network \<Rightarrow> int" where
  "network_value MAIN = 0"
| "network_value TESTNET = 1"
| "network_value REGTEST = 2"

text \<open>
  The network parameters \<^verbatim>\<open>Params()\<close> that pow.cpp reads, together with the constants
  it takes from headers that are not under src/ (fork heights, \<^verbatim>\<open>NUM_ALGOS\<close>,
  \<^verbatim>\<open>ALGO_SCRYPT\<close>): all are parameters of the model.
\<close>

record ChainParams =
  ProofOfWorkLimit :: "int \<Rightarrow> uint256"
  AllowMinDifficultyBlocks :: bool
  TargetSpacing :: int
  TargetTimespan :: int
  NetworkID :: Network
  V3_FORK :: int
  DIFF_SWITCH_HEIGHT :: int
  INFLATION_FIX_HEIGHT :: int
  DIFF2_SWITCH_HEIGHT :: int
  NUM_ALGOS :: int
  ALGO_SCRYPT :: int

text \<open>
  A node of the block index: the fields pow.cpp reads through \<^verbatim>\<open>CBlockIndex*\<close>.
  The fields \<^verbatim>\<open>nHeight\<close> and \<^verbatim>\<open>nBits\<close> are \<open>blk_nHeight\<close> and \<open>blk_nBits\<close>;
  \<^verbatim>\<open>GetBlockTime()\<close>, \<^verbatim>\<open>GetAlgo()\<close> and \<^verbatim>\<open>GetMedianTimePast()\<close> are accessors
  of the index (the spec's read contract: time, algorithm, median-time-past), here
  fields of the node. A pointer is an option: \<open>None\<close> is \<^verbatim>\<open>NULL\<close>.
\<close>

datatype CBlockIndex =
  CBlockIndex (blk_nHeight: int) (GetBlockTime: int) (blk_nBits: uint32) (GetAlgo: int)
    (GetMedianTimePast: int) (pprev: "CBlockIndex option")

record CBlockHeader =
  hdr_nTime :: int
  hdr_nBits :: uint32

section \<open>256-bit arithmetic and the compact codec\<close>

text \<open>
  Modelled from the spec: the arithmetic of \<^verbatim>\<open>uint256\<close> (uint256.h is not under src/).
  Multiplication by a small (64-bit) integer wraps at 256 bits; division truncates and a
  zero divisor is a fatal error.
\<close>

definition uint256_of_int64 :: "int \<Rightarrow> uint256" where
  "uint256_of_int64 k = ucast (word_of_int k :: 64 word)"

definition uint256_mul :: "uint256 \<Rightarrow> int \<Rightarrow> uint256" where
  "uint256_mul bn k = bn * uint256_of_int64 k"

definition uint256_divide :: "uint256 \<Rightarrow> uint256 \<Rightarrow> error + uint256" where
  "uint256_divide a b = (if b = 0 then Inl DivisionByZero else Inr (a div b))"

definition uint256_div :: "uint256 \<Rightarrow> int \<Rightarrow> error + uint256" where
  "uint256_div bn k = uint256_divide bn (uint256_of_int64 k)"

text \<open>
  Modelled from the spec: \<^verbatim>\<open>uint256::bits()\<close>, the position of the highest set bit
  plus one (0 for zero), found by scanning down from bit 255.
\<close>

fun bits_from :: "nat \<Rightarrow> uint256 \<Rightarrow> nat" where
  "bits_from 0 bn = 0"
| "bits_from (Suc k) bn = (if bit bn k then Suc k else bits_from k bn)"

definition bits :: "uint256 \<Rightarrow> nat" where
  "bits bn = bits_from 256 bn"

text \<open>
  Modelled from the spec: \<^verbatim>\<open>uint256::SetCompact\<close> (section 4.2, decode). The exponent
  is the high byte, the mantissa the low three bytes; an exponent of at most 3 shifts the
  mantissa right by \<open>8 * (3 - exponent)\<close>, a larger one shifts it left by
  \<open>8 * (exponent - 3)\<close>. The result is (target, isNegative, isOverflow): negative iff
  bit \<^verbatim>\<open>0x00800000\<close> is set, overflow iff the left shift moves non-zero mantissa bits
  above bit 255.
\<close>

definition SetCompact :: "uint32 \<Rightarrow> uint256 \<times> bool \<times> bool" where
  "SetCompact nCompact =
     (let nSize = unat (drop_bit 24 nCompact);
          nWord = nCompact AND 0x00ffffff;
          bn = (if nSize \<le> 3 then ucast (drop_bit (8 * (3 - nSize)) nWord)
                else push_bit (8 * (nSize - 3)) (ucast nWord));
          fNegative = (nCompact AND 0x00800000 \<noteq> 0);
          fOverflow = (3 < nSize \<and> 2 ^ 256 \<le> unat nWord * 2 ^ (8 * (nSize - 3)))
      in (bn, fNegative, fOverflow))"

text \<open>
  Modelled from the spec: \<^verbatim>\<open>uint256::GetCompact\<close> (section 4.2, encode). The exponent
  is the length of the target in bytes and the mantissa its three most significant bytes;
  when the mantissa's top bit (the sign bit) would be set, the mantissa is shifted right
  by one byte and the exponent incremented.
\<close>

definition GetCompact :: "uint256 \<Rightarrow> uint32" where
  "GetCompact bn =
     (let nSize = (bits bn + 7) div 8;
          nCompact = (if nSize \<le> 3 then push_bit (8 * (3 - nSize)) (ucast bn)
                      else ucast (drop_bit (8 * (nSize - 3)) bn)) :: uint32
      in if nCompact AND 0x00800000 \<noteq> 0
         then drop_bit 8 nCompact OR push_bit 24 (word_of_nat (nSize + 1))
         else nCompact OR push_bit 24 (word_of_nat nSize))"

text \<open>The target a compact value decodes to, flags dropped (\<^verbatim>\<open>bn.SetCompact(nBits)\<close>).\<close>

definition decoded_target :: "uint32 \<Rightarrow> uint256" where
  "decoded_target nCompact = fst (SetCompact nCompact)"

section \<open>Constants of pow.cpp\<close>

definition multiAlgoTargetSpacing :: int where
  "multiAlgoTargetSpacing = 120"

definition nAveragingInterval :: int where
  "nAveragingInterval = 10"

definition nAveragingTargetTimespan :: int where
  "nAveragingTargetTimespan = nAveragingInterval * multiAlgoTargetSpacing"

definition nMaxAdjustDown :: int where
  "nMaxAdjustDown = 40"

definition nMaxAdjustUp :: int where
  "nMaxAdjustUp = 20"

definition nLocalDifficultyAdjustment :: int where
  "nLocalDifficultyAdjustment = 40"

definition nMinActualTimespan :: int where
  "nMinActualTimespan = nAveragingTargetTimespan * (100 - nMaxAdjustUp) sdiv 100"

definition nMaxActualTimespan :: int where
  "nMaxActualTimespan = nAveragingTargetTimespan * (100 + nMaxAdjustDown) sdiv 100"

section \<open>CheckMinWork\<close>

text \<open>
  The relaxation loop of \<^verbatim>\<open>CheckMinWork\<close> (lines 53-59). Nothing bounds its running
  time when the target timespan is not positive, so it is a partial function: \<open>None\<close>
  is a loop that never ends.
\<close>

partial_function (option) CheckMinWork_loop ::
    "ChainParams \<Rightarrow> uint256 \<Rightarrow> int \<Rightarrow> uint256 \<Rightarrow> uint256 option" where
  "CheckMinWork_loop P bnLimit deltaTime bnResult =
     (if deltaTime > 0 \<and> bnResult < bnLimit
      then CheckMinWork_loop P bnLimit (deltaTime - TargetTimespan P * 4) (uint256_mul bnResult 4)
      else Some bnResult)"

text \<open>
  \<^verbatim>\<open>CheckMinWork\<close> (lines 37-63). The identifier \<^verbatim>\<open>bnLimit\<close> is not declared in
  pow.cpp (the function declares \<^verbatim>\<open>bnProofOfWorkLimit\<close>): it is a parameter here.
\<close>

definition CheckMinWork ::
    "ChainParams \<Rightarrow> uint256 \<Rightarrow> uint32 \<Rightarrow> uint32 \<Rightarrow> int \<Rightarrow> bool option" where
  "CheckMinWork P bnLimit nBits nBase deltaTime =
     (case SetCompact nBits of (bnNewBlock, fNegative, fOverflow) \<Rightarrow>
        if fOverflow then Some False
        else
          let bnProofOfWorkLimit = ProofOfWorkLimit P (ALGO_SCRYPT P) in
          if AllowMinDifficultyBlocks P \<and> deltaTime > TargetSpacing P * 2
          then Some (bnNewBlock \<le> bnLimit)
          else
            (case CheckMinWork_loop P bnLimit deltaTime (decoded_target nBase) of
               None \<Rightarrow> None
             | Some bnResult \<Rightarrow>
                 Some (bnNewBlock \<le>
                   (if bnResult > bnProofOfWorkLimit then bnProofOfWorkLimit else bnResult))))"

section \<open>GetProofIncrement\<close>

text \<open>\<^verbatim>\<open>GetProofIncrement\<close> (lines 74-87).\<close>

definition GetProofIncrement :: "uint32 \<Rightarrow> error + uint256" where
  "GetProofIncrement nBits =
     (case SetCompact nBits of (bnTarget, fNegative, fOverflow) \<Rightarrow>
        if fNegative \<or> fOverflow \<or> bnTarget = 0 then Inr 0
        else
          (case uint256_divide (NOT bnTarget) (bnTarget + 1) of
             Inl e \<Rightarrow> Inl e
           | Inr q \<Rightarrow> Inr (q + 1)))"

section \<open>Retargeting\<close>

text \<open>
  The walk over \<^verbatim>\<open>pprev\<close> links of lines 143-144 and 192-195:
  \<^verbatim>\<open>for (i = 0; pindexFirst && i < n; i++) pindexFirst = pindexFirst->pprev;\<close>
\<close>

fun walk_back :: "nat \<Rightarrow> CBlockIndex option \<Rightarrow> CBlockIndex option" where
  "walk_back 0 pindexFirst = pindexFirst"
| "walk_back (Suc n) None = None"
| "walk_back (Suc n) (Some b) = walk_back n (pprev b)"

text \<open>
  Modelled from the spec: \<^verbatim>\<open>GetLastBlockIndexForAlgo\<close> (not under src/), the nearest
  ancestor, the start included, mined with the algorithm, or null if there is none.
\<close>

fun GetLastBlockIndexForAlgo :: "CBlockIndex option \<Rightarrow> int \<Rightarrow> CBlockIndex option" where
  "GetLastBlockIndexForAlgo None algo = None"
| "GetLastBlockIndexForAlgo (Some (CBlockIndex h t b a m p)) algo =
     (if a = algo then Some (CBlockIndex h t b a m p) else GetLastBlockIndexForAlgo p algo)"

text \<open>C++ integer division: a zero divisor is an error, the quotient truncates.\<close>

definition int_div :: "int \<Rightarrow> int \<Rightarrow> error + int" where
  "int_div a b = (if b = 0 then Inl DivisionByZero else Inr (a sdiv b))"

text \<open>
  The era parameters of \<^verbatim>\<open>GetNextWorkRequiredV1\<close> (lines 114, 117, 118) as functions of
  the next height \<^verbatim>\<open>nHeight = pindexLast->nHeight + 1\<close>.
\<close>

definition V1_nTargetTimespanCurrent :: "ChainParams \<Rightarrow> int \<Rightarrow> int" where
  "V1_nTargetTimespanCurrent P nHeightNext =
     (let fInflationFixProtocol = (nHeightNext \<ge> INFLATION_FIX_HEIGHT P)
      in if fInflationFixProtocol then TargetTimespan P else TargetTimespan P * 5)"

definition V1_nInterval :: "ChainParams \<Rightarrow> int \<Rightarrow> error + int" where
  "V1_nInterval P nHeightNext =
     (let fInflationFixProtocol = (nHeightNext \<ge> INFLATION_FIX_HEIGHT P);
          nTargetTimespanCurrent = V1_nTargetTimespanCurrent P nHeightNext
      in if fInflationFixProtocol
         then int_div nTargetTimespanCurrent (TargetSpacing P)
         else int_div nTargetTimespanCurrent (TargetSpacing P sdiv 2))"

text \<open>
  \<^verbatim>\<open>GetNextWorkRequiredV1\<close> (lines 108-178). Line 111 reads \<^verbatim>\<open>pindexLast->nHeight\<close>
  before the null test of line 126, so a null \<^verbatim>\<open>pindexLast\<close> is a null dereference and
  the genesis branch of line 126 is never taken.
\<close>

definition GetNextWorkRequiredV1 ::
    "ChainParams \<Rightarrow> CBlockIndex option \<Rightarrow> CBlockHeader \<Rightarrow> int \<Rightarrow> error + uint32" where
  "GetNextWorkRequiredV1 P pindexLast pblock algo =
     (let nProofOfWorkLimit = GetCompact (ProofOfWorkLimit P algo) in
      case pindexLast of
        None \<Rightarrow> Inl NullDereference
      | Some lastBlock \<Rightarrow>
          let nHeightNext = blk_nHeight lastBlock + 1;
              fNewDifficultyProtocol = (nHeightNext \<ge> DIFF_SWITCH_HEIGHT P);
              fDifficultySwitchHeightTwo = (nHeightNext \<ge> DIFF2_SWITCH_HEIGHT P);
              nTargetTimespanCurrent = V1_nTargetTimespanCurrent P nHeightNext
          in
          case V1_nInterval P nHeightNext of
            Inl e \<Rightarrow> Inl e
          | Inr nInterval \<Rightarrow>
              if NetworkID P = TESTNET then Inr nProofOfWorkLimit
              else if nInterval = 0 then Inl DivisionByZero
              else if (blk_nHeight lastBlock + 1) smod nInterval \<noteq> 0 then Inr (blk_nBits lastBlock)
              else
                let blockstogoback =
                      (if blk_nHeight lastBlock + 1 \<noteq> nInterval then nInterval else nInterval - 1)
                in
                case walk_back (nat blockstogoback) (Some lastBlock) of
                  None \<Rightarrow> Inl AssertionFailed
                | Some firstBlock \<Rightarrow>
                    let nActualTimespan0 = GetBlockTime lastBlock - GetBlockTime firstBlock;
                        nActualTimespanMax =
                          (if fDifficultySwitchHeightTwo then (nTargetTimespanCurrent * 75) sdiv 60
                           else if fNewDifficultyProtocol then nTargetTimespanCurrent * 2
                           else nTargetTimespanCurrent * 4);
                        nActualTimespanMin =
                          (if fDifficultySwitchHeightTwo then (nTargetTimespanCurrent * 55) sdiv 73
                           else if fNewDifficultyProtocol then nTargetTimespanCurrent sdiv 2
                           else nTargetTimespanCurrent sdiv 4);
                        nActualTimespan1 =
                          (if nActualTimespan0 < nActualTimespanMin then nActualTimespanMin
                           else nActualTimespan0);
                        nActualTimespan =
                          (if nActualTimespan1 > nActualTimespanMax then nActualTimespanMax
                           else nActualTimespan1);
                        bnOld = decoded_target (blk_nBits lastBlock)
                    in
                    case uint256_div (uint256_mul bnOld nActualTimespan) nTargetTimespanCurrent of
                      Inl e \<Rightarrow> Inl e
                    | Inr bnNew \<Rightarrow>
                        Inr (GetCompact
                          (if bnNew > ProofOfWorkLimit P algo then ProofOfWorkLimit P algo
                           else bnNew)))"

text \<open>
  The per-algorithm loops of \<^verbatim>\<open>GetNextWorkRequiredV2\<close>: lines 222-226 divide by
  \<open>100 + nLocalDifficultyAdjustment\<close> and multiply by 100, lines 230-234 multiply by
  \<open>100 + nLocalDifficultyAdjustment\<close> and divide by 100, once per adjustment.
\<close>

fun adjust_positive :: "nat \<Rightarrow> uint256 \<Rightarrow> error + uint256" where
  "adjust_positive 0 bnNew = Inr bnNew"
| "adjust_positive (Suc n) bnNew =
     (case uint256_div bnNew (100 + nLocalDifficultyAdjustment) of
        Inl e \<Rightarrow> Inl e
      | Inr q \<Rightarrow> adjust_positive n (uint256_mul q 100))"

fun adjust_negative :: "nat \<Rightarrow> uint256 \<Rightarrow> error + uint256" where
  "adjust_negative 0 bnNew = Inr bnNew"
| "adjust_negative (Suc n) bnNew =
     (case uint256_div (uint256_mul bnNew (100 + nLocalDifficultyAdjustment)) 100 of
        Inl e \<Rightarrow> Inl e
      | Inr q \<Rightarrow> adjust_negative n q)"

text \<open>\<^verbatim>\<open>GetNextWorkRequiredV2\<close> (lines 180-247).\<close>

definition GetNextWorkRequiredV2 ::
    "ChainParams \<Rightarrow> CBlockIndex option \<Rightarrow> CBlockHeader \<Rightarrow> int \<Rightarrow> error + uint32" where
  "GetNextWorkRequiredV2 P pindexLast pblock algo =
     (let nProofOfWorkLimit = GetCompact (ProofOfWorkLimit P algo) in
      case pindexLast of
        None \<Rightarrow> Inr nProofOfWorkLimit
      | Some lastBlock \<Rightarrow>
          let pindexFirst = walk_back (nat (NUM_ALGOS P * nAveragingInterval)) (Some lastBlock);
              pindexPrevAlgo = GetLastBlockIndexForAlgo (Some lastBlock) algo
          in
          case pindexPrevAlgo of
            None \<Rightarrow> Inr nProofOfWorkLimit
          | Some prevAlgo \<Rightarrow>
             (case pindexFirst of
                None \<Rightarrow> Inr nProofOfWorkLimit
              | Some firstBlock \<Rightarrow>
                  let nActualTimespan0 = GetMedianTimePast lastBlock - GetMedianTimePast firstBlock;
                      nActualTimespan1 = nAveragingTargetTimespan
                         + (nActualTimespan0 - nAveragingTargetTimespan) sdiv 6;
                      nActualTimespan2 =
                        (if nActualTimespan1 < nMinActualTimespan then nMinActualTimespan
                         else nActualTimespan1);
                      nActualTimespan =
                        (if nActualTimespan2 > nMaxActualTimespan then nMaxActualTimespan
                         else nActualTimespan2);
                      bnOld = decoded_target (blk_nBits prevAlgo)
                  in
                  case uint256_div (uint256_mul bnOld nActualTimespan) nAveragingTargetTimespan of
                    Inl e \<Rightarrow> Inl e
                  | Inr bnNew0 \<Rightarrow>
                      let nAdjustments = blk_nHeight prevAlgo - blk_nHeight lastBlock + NUM_ALGOS P - 1 in
                      case (if nAdjustments > 0 then adjust_positive (nat nAdjustments) bnNew0
                            else Inr bnNew0) of
                        Inl e \<Rightarrow> Inl e
                      | Inr bnNew1 \<Rightarrow>
                         (case (if nAdjustments < 0 then adjust_negative (nat (- nAdjustments)) bnNew1
                                else Inr bnNew1) of
                            Inl e \<Rightarrow> Inl e
                          | Inr bnNew \<Rightarrow>
                              Inr (GetCompact
                                (if bnNew > ProofOfWorkLimit P algo then ProofOfWorkLimit P algo
                                 else bnNew)))))"

text \<open>
  \<^verbatim>\<open>GetNextWorkRequired\<close> (lines 89-106). Line 91 reads \<^verbatim>\<open>pindexLast->nHeight\<close> first.
  The conditions of lines 96 and 100 are written \<^verbatim>\<open>!Params().NetworkID() == TESTNET\<close>:
  the negation applies to the network id (\<open>logical_not\<close>: 1 for 0, else 0) and its
  result is compared with the enumerator. When no condition holds, control reaches the
  end of the function without a return value.
\<close>

definition logical_not :: "int \<Rightarrow> int" where
  "logical_not x = (if x = 0 then 1 else 0)"

definition GetNextWorkRequired ::
    "ChainParams \<Rightarrow> CBlockIndex option \<Rightarrow> CBlockHeader \<Rightarrow> int \<Rightarrow> error + uint32" where
  "GetNextWorkRequired P pindexLast pblock algo =
     (case pindexLast of
        None \<Rightarrow> Inl NullDereference
      | Some lastBlock \<Rightarrow>
          if NetworkID P = TESTNET then Inr 0x1d13ffec
          else if logical_not (network_value (NetworkID P)) = network_value TESTNET
                  \<and> blk_nHeight lastBlock < V3_FORK P
          then GetNextWorkRequiredV1 P pindexLast pblock algo
          else if logical_not (network_value (NetworkID P)) = network_value TESTNET
                  \<and> blk_nHeight lastBlock \<ge> V3_FORK P
          then GetNextWorkRequiredV2 P pindexLast pblock algo
          else Inl NoReturnValue)"

section \<open>CheckProofOfWork\<close>

text \<open>\<^verbatim>\<open>CheckProofOfWork\<close> (lines 249-265); \<^verbatim>\<open>error(...)\<close> logs and returns false.\<close>

definition CheckProofOfWork :: "ChainParams \<Rightarrow> uint256 \<Rightarrow> uint32 \<Rightarrow> int \<Rightarrow> bool" where
  "CheckProofOfWork P hash nBits algo =
     (case SetCompact nBits of (bnTarget, fNegative, fOverflow) \<Rightarrow>
        if fNegative \<or> bnTarget = 0 \<or> fOverflow \<or> bnTarget > ProofOfWorkLimit P algo
        then False
        else if hash > bnTarget then False
        else True)"

section \<open>Example inputs\<close>

text \<open>
  Parameters used to run the definitions on concrete inputs. They are illustrative
  values of a main network (a ceiling of \<^verbatim>\<open>0x1d00ffff\<close> for every algorithm), not the
  constants of a deployed chain.
\<close>

definition example_params :: ChainParams where
  "example_params =
     \<lparr> ProofOfWorkLimit = (\<lambda>algo. push_bit 208 0xffff),
       AllowMinDifficultyBlocks = False,
       TargetSpacing = 40,
       TargetTimespan = 400,
       NetworkID = MAIN,
       V3_FORK = 40,
       DIFF_SWITCH_HEIGHT = 20,
       INFLATION_FIX_HEIGHT = 5,
       DIFF2_SWITCH_HEIGHT = 30,
       NUM_ALGOS = 3,
       ALGO_SCRYPT = 0 \<rparr>"

text \<open>
  A chain of \<open>n\<close> blocks of algorithm 0 with heights \<open>n - 1\<close> down to 0, all recording the
  same compact target, with block time and median time past \<open>stride\<close> seconds per height;
  the block of height 0 has no predecessor. \<open>example_chain nBits stride 0\<close> is the null
  pointer.
\<close>

fun example_chain :: "uint32 \<Rightarrow> int \<Rightarrow> nat \<Rightarrow> CBlockIndex option" where
  "example_chain nBits stride 0 = None"
| "example_chain nBits stride (Suc n) =
     Some (CBlockIndex (int n) (stride * int n) nBits 0 (stride * int n)
             (example_chain nBits stride n))"

definition example_header :: CBlockHeader where
  "example_header = \<lparr> hdr_nTime = 0, hdr_nBits = 0 \<rparr>"

section \<open>Facts about 256-bit arithmetic\<close>

lemma unat_NOT_uint256:
  fixes t :: uint256
  shows "unat (NOT t) = 2 ^ 256 - 1 - unat t"
proof -
  have "NOT t = - 1 - t"
    by (simp add: not_eq_complement)
  moreover have "unat (- 1 - t) = unat (- 1 :: uint256) - unat t"
    by (rule unat_sub) simp
  moreover have "unat (- 1 :: uint256) = 2 ^ 256 - 1"
    by (simp add: unsigned_minus_1_eq_mask mask_eq_exp_minus_1)
  ultimately show ?thesis by simp
qed

lemma nat_quotient_shift:
  fixes d N :: nat
  assumes "2 \<le> d" "d < N"
  shows "(N - d) div d + 1 = N div d" and "N div d < N"
proof -
  show "(N - d) div d + 1 = N div d"
    using assms le_div_geq [of d N] by simp
  have "N div d \<le> N div 2"
    using assms by (intro div_le_mono2) simp_all
  also have "\<dots> < N"
    using assms by simp
  finally show "N div d < N" .
qed

text \<open>
  The quotient computed by \<^verbatim>\<open>~bnTarget / (bnTarget + 1) + 1\<close> is the floor of
  \<open>2^256 / (bnTarget + 1)\<close>, for a target that is neither zero nor all ones.
\<close>

lemma not_div_succ:
  fixes t :: uint256
  assumes "t + 1 \<noteq> 0" and "t \<noteq> 0"
  shows "unat (NOT t div (t + 1) + 1) = 2 ^ 256 div (unat t + 1)"
proof -
  have t1: "unat (t + 1) = unat t + 1"
    using assms unatSuc [of t] by (simp add: add.commute)
  have "unat (t + 1) < 2 ^ LENGTH(256)"
    by (rule unsigned_less)
  then have lt: "unat t + 1 < 2 ^ 256"
    using t1 by simp
  have t0: "2 \<le> unat t + 1"
    using assms(2) by (simp add: unat_gt_0 Suc_le_eq)
  have q: "unat (NOT t div (t + 1)) = (2 ^ 256 - (unat t + 1)) div (unat t + 1)"
    by (simp add: unat_div t1 unat_NOT_uint256)
  note s = nat_quotient_shift [OF t0 lt]
  have "unat (NOT t div (t + 1) + 1) = unat (NOT t div (t + 1)) + 1"
    using s q by (simp add: unat_word_ariths)
  then show ?thesis using q s by simp
qed

lemma nat_quotient_pos:
  fixes d N :: nat
  assumes "0 < d" "d < N"
  shows "1 \<le> N div d"
  using assms by (simp add: Suc_le_eq div_greater_zero_iff)

lemma unat_succ_less:
  fixes t :: uint256
  assumes "t + 1 \<noteq> 0"
  shows "unat t + 1 < 2 ^ 256"
proof -
  have t1: "unat (t + 1) = unat t + 1"
    using assms unatSuc [of t] by (simp add: add.commute)
  have "unat (t + 1) < 2 ^ LENGTH(256)"
    by (rule unsigned_less)
  then show ?thesis
    using t1 by simp
qed

text \<open>A decoded target is never the all-ones value, so \<open>bnTarget + 1\<close> is not zero.\<close>

lemma SetCompact_not_max: "fst (SetCompact nCompact) + 1 \<noteq> 0"
proof -
  have a: "(ucast (w :: uint32) :: uint256) \<noteq> - 1" for w
  proof
    assume "(ucast w :: uint256) = - 1"
    then have "bit (ucast w :: uint256) 255" by simp
    then have "bit w 255" by (simp add: bit_ucast_iff)
    then show False by (auto dest: bit_imp_le_length)
  qed
  have b: "0 < k \<Longrightarrow> push_bit k (v :: uint256) \<noteq> - 1" for k v
  proof
    assume k: "0 < k" and "push_bit k v = - 1"
    then have "bit (push_bit k v) 0" by simp
    then show False using k by (simp add: bit_push_bit_iff)
  qed
  have "fst (SetCompact nCompact) \<noteq> - 1"
    using a b by (simp add: SetCompact_def Let_def)
  then show ?thesis
    by (simp add: add_eq_0_iff2)
qed

lemma SetCompact_difficulty_1:
  "SetCompact 0x1d00ffff = (push_bit 208 0xffff, False, False)"
  by (simp add: SetCompact_def Let_def)

lemma SetCompact_1c00ffff:
  "SetCompact 0x1c00ffff = (push_bit 200 0xffff, False, False)"
  by (simp add: SetCompact_def Let_def)

lemma GetProofIncrement_Inr:
  assumes "SetCompact nBits = (t, False, False)" and "t \<noteq> 0"
  shows "GetProofIncrement nBits = Inr (NOT t div (t + 1) + 1)"
    and "unat (NOT t div (t + 1) + 1) = 2 ^ 256 div (unat t + 1)"
proof -
  have nz: "t + 1 \<noteq> 0"
    using SetCompact_not_max [of nBits] assms(1) by simp
  show "GetProofIncrement nBits = Inr (NOT t div (t + 1) + 1)"
    using nz assms by (simp add: GetProofIncrement_def uint256_divide_def)
  show "unat (NOT t div (t + 1) + 1) = 2 ^ 256 div (unat t + 1)"
    by (rule not_div_succ [OF nz assms(2)])
qed

section \<open>The compact codec\<close>

text \<open>
  \<open>bits\<close> bounds the set bits of its argument; a word whose set bits are among those of
  another is at most that word. Decoding an encoded target clears low-order bits only, so
  it never exceeds the target that was encoded.
\<close>

lemma bits_from_le: "bits_from k bn \<le> k"
  by (induction k) auto

lemma bits_from_above:
  "(\<And>n. k \<le> n \<Longrightarrow> \<not> bit bn n) \<Longrightarrow> bits_from k bn \<le> n \<Longrightarrow> \<not> bit bn n"
proof (induction k)
  case 0
  then show ?case by simp
next
  case (Suc k)
  show ?case
  proof (cases "bit bn k")
    case True
    then show ?thesis using Suc.prems by simp
  next
    case False
    have "\<not> bit bn j" if "k \<le> j" for j
      using that False Suc.prems(1) [of j] by (cases "j = k") auto
    then show ?thesis
      using Suc.IH Suc.prems(2) False by simp
  qed
qed

lemma bits_le: "bits bn \<le> 256"
  by (simp add: bits_def bits_from_le)

lemma bits_above: "bits bn \<le> n \<Longrightarrow> \<not> bit bn n"
  unfolding bits_def
  by (rule bits_from_above) (auto dest: bit_imp_le_length)

lemma word_le_of_bits:
  fixes a b :: "'a::len word"
  assumes "\<And>n. bit a n \<Longrightarrow> bit b n"
  shows "a \<le> b"
proof -
  have "a = b AND a"
    by (rule bit_eqI) (auto simp: bit_and_iff assms)
  then show ?thesis
    using word_and_le2 [of b a] by simp
qed

lemma compact_size_field:
  fixes m :: uint32
  assumes "\<And>i. 24 \<le> i \<Longrightarrow> \<not> bit m i" and "s < 256"
  shows "unat (drop_bit 24 (m OR push_bit 24 (word_of_nat s))) = s"
proof -
  have "drop_bit 24 (m OR push_bit 24 (word_of_nat s)) = take_bit 8 (word_of_nat s :: uint32)"
    by (rule bit_eqI) (auto simp: bit_simps assms(1))
  moreover have "unat (word_of_nat s :: uint32) = s"
    using assms(2) by (simp add: unat_of_nat)
  moreover have "unat (take_bit 8 (word_of_nat s :: uint32)) = take_bit 8 (unat (word_of_nat s :: uint32))"
    by (rule unsigned_take_bit_eq)
  ultimately show ?thesis
    using assms(2) by (simp add: take_bit_eq_mod)
qed

lemma compact_mantissa_field:
  fixes m :: uint32
  assumes "\<And>i. 24 \<le> i \<Longrightarrow> \<not> bit m i"
  shows "(m OR push_bit 24 w) AND 0x00ffffff = m"
proof -
  have "(0x00ffffff :: uint32) = mask 24"
    by (simp add: mask_eq_exp_minus_1)
  moreover have h: "n < 24" if "bit m n" for n
    using that assms [of n] by (cases "n < 24") auto
  moreover have "(m OR push_bit 24 w) AND mask 24 = m"
    by (rule bit_eqI) (auto simp: bit_simps dest: h)
  ultimately show ?thesis by simp
qed

lemma decoded_target_fields:
  fixes m :: uint32
  assumes "\<And>i. 24 \<le> i \<Longrightarrow> \<not> bit m i" and "s < 256"
  shows "decoded_target (m OR push_bit 24 (word_of_nat s)) =
           (if s \<le> 3 then ucast (drop_bit (8 * (3 - s)) m)
            else push_bit (8 * (s - 3)) (ucast m))"
  using compact_size_field [OF assms] compact_mantissa_field [OF assms(1), of "word_of_nat s"]
  by (simp add: decoded_target_def SetCompact_def Let_def)


lemma decoded_GetCompact_le: "decoded_target (GetCompact bn) \<le> bn"
proof -
  define s where "s = (bits bn + 7) div 8"
  define m :: uint32 where
    "m = (if s \<le> 3 then push_bit (8 * (3 - s)) (ucast bn) else ucast (drop_bit (8 * (s - 3)) bn))"
  have s32: "s \<le> 32"
    using bits_le [of bn] by (simp add: s_def)
  have hi: "\<not> bit bn n" if "8 * s \<le> n" for n
    by (rule bits_above) (use that in \<open>simp add: s_def\<close>)
  have m_hi: "\<not> bit m i" if "24 \<le> i" for i
  proof (cases "s \<le> 3")
    case True
    then have "8 * s \<le> i - 8 * (3 - s)"
      using that by simp
    then show ?thesis
      using True hi [of "i - 8 * (3 - s)"] by (simp add: m_def bit_simps)
  next
    case False
    then have "8 * s \<le> 8 * (s - 3) + i"
      using that by simp
    then show ?thesis
      using False hi [of "8 * (s - 3) + i"] by (simp add: m_def bit_simps)
  qed
  have m8_hi: "\<not> bit (drop_bit 8 m) i" if "24 \<le> i" for i
    using that by (auto simp: bit_simps dest: bit_imp_le_length)
  have d1: "decoded_target (m OR push_bit 24 (word_of_nat s)) \<le> bn"
  proof -
    have "decoded_target (m OR push_bit 24 (word_of_nat s)) =
            (if s \<le> 3 then ucast (drop_bit (8 * (3 - s)) m)
             else push_bit (8 * (s - 3)) (ucast m))"
      by (rule decoded_target_fields) (use m_hi s32 in auto)
    also have "\<dots> \<le> bn"
      by (rule word_le_of_bits) (auto simp: m_def bit_simps split: if_splits)
    finally show ?thesis .
  qed
  have d2: "decoded_target (drop_bit 8 m OR push_bit 24 (word_of_nat (s + 1))) \<le> bn"
  proof -
    have "decoded_target (drop_bit 8 m OR push_bit 24 (word_of_nat (s + 1))) =
            (if s + 1 \<le> 3 then ucast (drop_bit (8 * (3 - (s + 1))) (drop_bit 8 m))
             else push_bit (8 * (s + 1 - 3)) (ucast (drop_bit 8 m)))"
      by (rule decoded_target_fields) (use m8_hi s32 in auto)
    also have "\<dots> \<le> bn"
    proof -
      have e1: "8 * (2 - s) + 8 + n - 8 * (3 - s) = n" if "s \<le> 2" for n
        using that by simp
      have e2: "8 + n - 8 * (s - 2) = n" if "\<not> s \<le> 2" "s \<le> 3" for n
        using that by simp
      have e3: "8 * (s - 3) + (8 + n) - 8 * (s - 2) = n" if "\<not> s \<le> 3" "8 * (s - 2) \<le> n" for n
        using that by simp
      show ?thesis
        by (rule word_le_of_bits) (auto simp: m_def bit_simps e1 e2 e3 split: if_splits)
    qed
    finally show ?thesis .
  qed
  have gc: "GetCompact bn =
              (if m AND 0x00800000 \<noteq> 0
               then drop_bit 8 m OR push_bit 24 (word_of_nat (s + 1))
               else m OR push_bit 24 (word_of_nat s))"
    by (simp only: GetCompact_def Let_def s_def m_def)
  show ?thesis
    unfolding gc using d1 d2 by simp
qed

lemma GetCompact_le_ceiling:
  "bn \<le> L \<Longrightarrow> decoded_target (GetCompact bn) \<le> L"
  using decoded_GetCompact_le [of bn] by (rule order_trans)

lemma clamped_GetCompact_le:
  "decoded_target (GetCompact (if bnNew > L then L else bnNew)) \<le> L"
  by (rule GetCompact_le_ceiling) auto

text \<open>Evaluating \<open>bits\<close> on a concrete target: the top set bit decides.\<close>

lemma bits_from_eqI:
  "k < n \<Longrightarrow> bit bn k \<Longrightarrow> (\<And>j. k < j \<Longrightarrow> \<not> bit bn j) \<Longrightarrow> bits_from n bn = Suc k"
proof (induction n)
  case 0
  then show ?case by simp
next
  case (Suc n)
  show ?case
  proof (cases "k = n")
    case True
    then show ?thesis using Suc.prems by simp
  next
    case False
    then have "k < n" using Suc.prems(1) by simp
    then show ?thesis
      using Suc.IH Suc.prems by simp
  qed
qed

lemma bits_eqI:
  assumes "bit bn k" and "drop_bit (Suc k) bn = 0"
  shows "bits bn = Suc k"
proof -
  have "\<not> bit bn j" if "k < j" for j
  proof -
    have "bit bn j = bit (drop_bit (Suc k) bn) (j - Suc k)"
      using that by (simp add: bit_drop_bit_eq)
    then show ?thesis using assms(2) by simp
  qed
  moreover have "k < 256"
    using assms(1) by (auto dest: bit_imp_le_length)
  ultimately show ?thesis
    unfolding bits_def using assms(1) by (intro bits_from_eqI)
qed

lemma GetCompact_ceiling_example: "GetCompact (push_bit 208 0xffff) = 0x1d00ffff"
proof -
  have "bits (push_bit 208 0xffff) = Suc 223"
    by (rule bits_eqI) simp_all
  then show ?thesis
    by (simp add: GetCompact_def Let_def)
qed

section \<open>Properties of CheckProofOfWork\<close>

text \<open>
  C1. For every hash, compact target and algorithm id, \<open>CheckProofOfWork\<close> returns true
  exactly when the decoded target is not negative, not overflowed, not zero and not above
  the algorithm's ceiling, and the hash is at most the decoded target; otherwise it
  returns false.
\<close>

theorem CheckProofOfWork_iff:
  "CheckProofOfWork P hash nBits algo =
     (case SetCompact nBits of (bnTarget, fNegative, fOverflow) \<Rightarrow>
        \<not> fNegative \<and> \<not> fOverflow \<and> bnTarget \<noteq> 0
        \<and> bnTarget \<le> ProofOfWorkLimit P algo \<and> hash \<le> bnTarget)"
  by (auto simp: CheckProofOfWork_def split: prod.splits)

text \<open>
  The spec's example: hash 0 against \<^verbatim>\<open>0x1d00ffff\<close> succeeds under a ceiling of that
  target.
\<close>

theorem CheckProofOfWork_iff_witness:
  "CheckProofOfWork example_params 0 0x1d00ffff 0"
  using CheckProofOfWork_iff [of example_params 0 "0x1d00ffff" 0]
  by (simp add: SetCompact_difficulty_1 example_params_def)

section \<open>Properties of GetProofIncrement\<close>

text \<open>
  C8. For every compact target, \<open>GetProofIncrement\<close> returns 0 when the decoded target
  is negative, overflowed or zero, and otherwise returns \<open>(~target / (target + 1)) + 1\<close>
  in unsigned 256-bit arithmetic; the division never has a zero divisor, and the value is
  the integer quotient of \<open>2^256\<close> by \<open>target + 1\<close>.
\<close>

theorem GetProofIncrement_value:
  "GetProofIncrement nBits =
     (case SetCompact nBits of (bnTarget, fNegative, fOverflow) \<Rightarrow>
        if fNegative \<or> fOverflow \<or> bnTarget = 0 then Inr 0
        else Inr (NOT bnTarget div (bnTarget + 1) + 1))
   \<and> (case SetCompact nBits of (bnTarget, fNegative, fOverflow) \<Rightarrow>
        \<not> fNegative \<longrightarrow> \<not> fOverflow \<longrightarrow> bnTarget \<noteq> 0 \<longrightarrow>
        unat (NOT bnTarget div (bnTarget + 1) + 1) = 2 ^ 256 div (unat bnTarget + 1))"
proof (cases "SetCompact nBits")
  case (fields bnTarget fNegative fOverflow)
  have nz: "bnTarget + 1 \<noteq> 0"
    using SetCompact_not_max [of nBits] fields by simp
  show ?thesis
    using nz not_div_succ [OF nz]
    by (simp add: GetProofIncrement_def fields uint256_divide_def)
qed

theorem GetProofIncrement_value_witness:
  "GetProofIncrement 0x1d00ffff = Inr 4295032833
   \<and> GetProofIncrement 0x1d800000 = Inr 0
   \<and> GetProofIncrement 0 = Inr 0"
  using GetProofIncrement_value [of "0x1d00ffff"] GetProofIncrement_value [of "0x1d800000"]
    GetProofIncrement_value [of 0]
  by (simp add: SetCompact_def Let_def)

text \<open>
  C9. For two compact targets that decode, without the negative or the overflow flag, to
  nonzero targets \<open>t1 \<le> t2\<close>, the increment of the first is at least the increment of the
  second.
\<close>

theorem GetProofIncrement_antimono:
  assumes "SetCompact nBits1 = (t1, False, False)" and "t1 \<noteq> 0"
    and "SetCompact nBits2 = (t2, False, False)" and "t2 \<noteq> 0"
    and "t1 \<le> t2"
  shows "\<exists>w1 w2. GetProofIncrement nBits1 = Inr w1 \<and> GetProofIncrement nBits2 = Inr w2
           \<and> w2 \<le> w1"
proof -
  let ?w1 = "NOT t1 div (t1 + 1) + 1" and ?w2 = "NOT t2 div (t2 + 1) + 1"
  have "unat t1 + 1 \<le> unat t2 + 1"
    using assms(5) by (simp add: word_le_nat_alt)
  then have "(2::nat) ^ 256 div (unat t2 + 1) \<le> 2 ^ 256 div (unat t1 + 1)"
    by (intro div_le_mono2) simp_all
  then have "?w2 \<le> ?w1"
    using GetProofIncrement_Inr(2) [OF assms(1,2)] GetProofIncrement_Inr(2) [OF assms(3,4)]
    by (simp add: word_le_nat_alt)
  then show ?thesis
    using GetProofIncrement_Inr(1) [OF assms(1,2)] GetProofIncrement_Inr(1) [OF assms(3,4)]
    by simp
qed

theorem GetProofIncrement_antimono_witness:
  "SetCompact 0x1c00ffff = (push_bit 200 0xffff, False, False)
   \<and> SetCompact 0x1d00ffff = (push_bit 208 0xffff, False, False)
   \<and> (push_bit 200 0xffff :: uint256) \<le> push_bit 208 0xffff
   \<and> (\<exists>w1 w2. GetProofIncrement 0x1c00ffff = Inr w1 \<and> GetProofIncrement 0x1d00ffff = Inr w2
           \<and> w2 \<le> w1)"
proof -
  have le: "(push_bit 200 0xffff :: uint256) \<le> push_bit 208 0xffff"
    by simp
  show ?thesis
    using GetProofIncrement_antimono [OF SetCompact_1c00ffff _ SetCompact_difficulty_1 _ le]
      SetCompact_1c00ffff SetCompact_difficulty_1 le
    by simp
qed

text \<open>
  C10. For every compact target that decodes to a target that is not negative, not
  overflowed and not zero, \<open>GetProofIncrement\<close> returns a value of at least 1: such a
  block contributes strictly positive work.
\<close>

theorem GetProofIncrement_positive:
  assumes "SetCompact nBits = (t, False, False)" and "t \<noteq> 0"
  shows "\<exists>w. GetProofIncrement nBits = Inr w \<and> 1 \<le> w \<and> 0 < unat w"
proof -
  let ?w = "NOT t div (t + 1) + 1"
  have nz: "t + 1 \<noteq> 0"
    using SetCompact_not_max [of nBits] assms(1) by simp
  have "1 \<le> (2::nat) ^ 256 div (unat t + 1)"
    by (rule nat_quotient_pos [OF _ unat_succ_less [OF nz]]) simp
  then have u: "1 \<le> unat ?w"
    using GetProofIncrement_Inr(2) [OF assms] by simp
  then have "1 \<le> ?w"
    by (simp add: word_le_nat_alt)
  then show ?thesis
    using GetProofIncrement_Inr(1) [OF assms] u by simp
qed

theorem GetProofIncrement_positive_witness:
  "SetCompact 0x1d00ffff = (push_bit 208 0xffff, False, False)
   \<and> (\<exists>w. GetProofIncrement 0x1d00ffff = Inr w \<and> 1 \<le> w \<and> 0 < unat w)"
  using GetProofIncrement_positive [OF SetCompact_difficulty_1] SetCompact_difficulty_1
  by simp

section \<open>Properties of CheckMinWork\<close>

lemma CheckMinWork_loop_zero:
  "CheckMinWork_loop P bnLimit 0 bnResult = Some bnResult"
  by (subst CheckMinWork_loop.simps) simp

lemma SetCompact_1e00ffff:
  "SetCompact 0x1e00ffff = (push_bit 216 0xffff, False, False)"
  by (simp add: SetCompact_def Let_def)

text \<open>
  C7 as stated fails: with \<open>deltaTime = 0\<close> the loop adds no relaxation, but lines 60-61
  still clamp the bound to the scrypt ceiling. A claimed target equal to a base target
  above the ceiling is refused although it is at most the base target.
\<close>

theorem CheckMinWork_zero_delta_clamped:
  "\<not> AllowMinDifficultyBlocks example_params
   \<and> \<not> snd (snd (SetCompact 0x1e00ffff))
   \<and> decoded_target 0x1e00ffff \<le> decoded_target 0x1e00ffff
   \<and> CheckMinWork example_params (push_bit 208 0xffff) 0x1e00ffff 0x1e00ffff 0 = Some False"
  by (simp add: CheckMinWork_def CheckMinWork_loop_zero decoded_target_def SetCompact_1e00ffff
      example_params_def)

text \<open>
  C7, amended. For compact targets \<open>nBits\<close> and \<open>nBase\<close> that decode without overflow, on
  a network without minimum-difficulty relaxation, \<open>CheckMinWork nBits nBase 0\<close> returns
  true exactly when the target decoded from \<open>nBits\<close> is at most the smaller of the target
  decoded from \<open>nBase\<close> and the scrypt proof-of-work ceiling.
\<close>

theorem CheckMinWork_zero_delta:
  assumes "\<not> AllowMinDifficultyBlocks P"
    and "\<not> snd (snd (SetCompact nBits))" and "\<not> snd (snd (SetCompact nBase))"
  shows "CheckMinWork P bnLimit nBits nBase 0 =
           Some (decoded_target nBits
                   \<le> min (decoded_target nBase) (ProofOfWorkLimit P (ALGO_SCRYPT P)))"
  using assms
  by (auto simp: CheckMinWork_def CheckMinWork_loop_zero decoded_target_def Let_def min_def
      split: prod.splits)

theorem CheckMinWork_zero_delta_witness:
  "\<not> AllowMinDifficultyBlocks example_params
   \<and> \<not> snd (snd (SetCompact 0x1c00ffff)) \<and> \<not> snd (snd (SetCompact 0x1d00ffff))
   \<and> CheckMinWork example_params (push_bit 208 0xffff) 0x1c00ffff 0x1d00ffff 0 = Some True
   \<and> CheckMinWork example_params (push_bit 208 0xffff) 0x1d00ffff 0x1c00ffff 0 = Some False"
proof -
  have a: "\<not> AllowMinDifficultyBlocks example_params"
    by (simp add: example_params_def)
  have b: "\<not> snd (snd (SetCompact 0x1c00ffff))" "\<not> snd (snd (SetCompact 0x1d00ffff))"
    by (simp_all add: SetCompact_1c00ffff SetCompact_difficulty_1)
  show ?thesis
    using CheckMinWork_zero_delta [OF a b(1) b(2), of "push_bit 208 0xffff"]
      CheckMinWork_zero_delta [OF a b(2) b(1), of "push_bit 208 0xffff"] a b
    by (simp add: decoded_target_def SetCompact_1c00ffff SetCompact_difficulty_1 example_params_def)
qed

section \<open>The era parameters of GetNextWorkRequiredV1\<close>

text \<open>
  C6 as stated fails in its second half: below \<^verbatim>\<open>INFLATION_FIX_HEIGHT\<close> line 118 divides
  the timespan by half the spacing, so the interval is not the quotient timespan / spacing
  halved. With a base timespan of 400 and a spacing of 40, the next height 3 has the
  timespan 2000 and the interval 100, not 25 (nor 5).
\<close>

theorem V1_nInterval_not_halved:
  "3 < INFLATION_FIX_HEIGHT example_params
   \<and> V1_nInterval example_params 3 = Inr 100
   \<and> (V1_nTargetTimespanCurrent example_params 3 sdiv TargetSpacing example_params) sdiv 2 = 25
   \<and> (TargetTimespan example_params sdiv TargetSpacing example_params) sdiv 2 = 5"
  by (simp add: V1_nInterval_def V1_nTargetTimespanCurrent_def int_div_def example_params_def
      signed_divide_int_def)

text \<open>
  C6, amended. For every next height, the retarget timespan is the base timespan, times 5
  when the next height is below \<^verbatim>\<open>INFLATION_FIX_HEIGHT\<close>; the retarget interval is
  timespan / spacing at or above \<^verbatim>\<open>INFLATION_FIX_HEIGHT\<close>, and below it the
  (fivefold) timespan divided by half the spacing: the spacing is halved, not the
  interval. Divisions truncate and a zero divisor is an error.
\<close>

theorem V1_era_parameters:
  "V1_nTargetTimespanCurrent P nHeightNext =
     (if nHeightNext < INFLATION_FIX_HEIGHT P then TargetTimespan P * 5 else TargetTimespan P)
   \<and> V1_nInterval P nHeightNext =
     (if nHeightNext < INFLATION_FIX_HEIGHT P
      then (if TargetSpacing P sdiv 2 = 0 then Inl DivisionByZero
            else Inr ((TargetTimespan P * 5) sdiv (TargetSpacing P sdiv 2)))
      else (if TargetSpacing P = 0 then Inl DivisionByZero
            else Inr (TargetTimespan P sdiv TargetSpacing P)))"
  by (simp add: V1_nInterval_def V1_nTargetTimespanCurrent_def int_div_def not_less)

theorem V1_era_parameters_witness:
  "V1_nTargetTimespanCurrent example_params 3 = 2000
   \<and> V1_nInterval example_params 3 = Inr 100
   \<and> V1_nTargetTimespanCurrent example_params 10 = 400
   \<and> V1_nInterval example_params 10 = Inr 10"
  using V1_era_parameters [of example_params 3] V1_era_parameters [of example_params 10]
  by (simp add: example_params_def signed_divide_int_def)

section \<open>The dispatcher GetNextWorkRequired\<close>

text \<open>
  On the test network the dispatcher returns the constant \<^verbatim>\<open>0x1d13ffec\<close>; on the main
  network it returns the result of V1 below \<^verbatim>\<open>V3_FORK\<close> and of V2 from there on.
\<close>

lemma GetNextWorkRequired_dispatch:
  "GetNextWorkRequired (P\<lparr>NetworkID := TESTNET\<rparr>) (Some b) pblock algo = Inr 0x1d13ffec"
  "GetNextWorkRequired (P\<lparr>NetworkID := MAIN\<rparr>) (Some b) pblock algo =
     (if blk_nHeight b < V3_FORK P
      then GetNextWorkRequiredV1 (P\<lparr>NetworkID := MAIN\<rparr>) (Some b) pblock algo
      else GetNextWorkRequiredV2 (P\<lparr>NetworkID := MAIN\<rparr>) (Some b) pblock algo)"
  by (simp_all add: GetNextWorkRequired_def logical_not_def)

text \<open>
  C2. The three branches are not exhaustive: \<^verbatim>\<open>!Params().NetworkID() == TESTNET\<close>
  negates the network id before comparing it, which is true for \<open>MAIN\<close> (value 0) only.
  On the regression-test network no branch is taken, whatever the height, and the call
  ends without a return value.
\<close>

theorem GetNextWorkRequired_regtest_no_return:
  "GetNextWorkRequired (P\<lparr>NetworkID := REGTEST\<rparr>) (Some b) pblock algo = Inl NoReturnValue"
  by (simp add: GetNextWorkRequired_def logical_not_def)

text \<open>
  C3. With no previous block the dispatcher (line 91) and V1 (line 111) read
  \<^verbatim>\<open>pindexLast->nHeight\<close> before any null test; only V2, called on its own, returns the
  ceiling in compact form.
\<close>

theorem GetNextWorkRequired_null_pindexLast:
  "GetNextWorkRequired P None pblock algo = Inl NullDereference
   \<and> GetNextWorkRequiredV1 P None pblock algo = Inl NullDereference
   \<and> GetNextWorkRequiredV2 P None pblock algo = Inr (GetCompact (ProofOfWorkLimit P algo))"
  by (simp add: GetNextWorkRequired_def GetNextWorkRequiredV1_def GetNextWorkRequiredV2_def)

section \<open>Retargeting: GetNextWorkRequiredV1 and GetNextWorkRequiredV2\<close>

text \<open>
  The divisions of V2 have the constant divisors 1200, 140 and 100, so V2 never fails;
  every branch of V2 returns the encoding of a target that is at most the ceiling.
\<close>

lemma uint256_div_nonzero:
  "uint256_of_int64 k \<noteq> 0 \<Longrightarrow> uint256_div bn k = Inr (bn div uint256_of_int64 k)"
  by (simp add: uint256_div_def uint256_divide_def)

lemma V2_divisors_nonzero:
  "uint256_of_int64 nAveragingTargetTimespan \<noteq> 0"
  "uint256_of_int64 (100 + nLocalDifficultyAdjustment) \<noteq> 0"
  "uint256_of_int64 100 \<noteq> 0"
  by (simp_all add: uint256_of_int64_def nAveragingTargetTimespan_def nAveragingInterval_def
      multiAlgoTargetSpacing_def nLocalDifficultyAdjustment_def)

lemma adjust_positive_not_Inl: "adjust_positive n bn \<noteq> Inl e"
  by (induction n arbitrary: bn) (simp_all add: uint256_div_nonzero V2_divisors_nonzero)

lemma adjust_negative_not_Inl: "adjust_negative n bn \<noteq> Inl e"
  by (induction n arbitrary: bn) (simp_all add: uint256_div_nonzero V2_divisors_nonzero)

lemma V2_within_ceiling:
  "\<exists>r. GetNextWorkRequiredV2 P pindexLast pblock algo = Inr r
       \<and> decoded_target r \<le> ProofOfWorkLimit P algo"
proof (cases pindexLast)
  case None
  then show ?thesis
    by (simp add: GetNextWorkRequiredV2_def decoded_GetCompact_le)
next
  case (Some lastBlock)
  show ?thesis
  proof (cases "GetLastBlockIndexForAlgo (Some lastBlock) algo")
    case None
    then show ?thesis
      using Some by (simp add: GetNextWorkRequiredV2_def decoded_GetCompact_le)
  next
    case prev: (Some prevAlgo)
    show ?thesis
    proof (cases "walk_back (nat (NUM_ALGOS P * nAveragingInterval)) (Some lastBlock)")
      case None
      then show ?thesis
        using Some prev by (simp add: GetNextWorkRequiredV2_def decoded_GetCompact_le)
    next
      case first: (Some firstBlock)
      show ?thesis
        using Some prev first
        by (simp add: GetNextWorkRequiredV2_def Let_def uint256_div_nonzero V2_divisors_nonzero
            adjust_positive_not_Inl adjust_negative_not_Inl GetCompact_le_ceiling
            decoded_GetCompact_le not_less
            split: sum.splits
            del: GetLastBlockIndexForAlgo.simps)
    qed
  qed
qed

text \<open>
  V1 returns the encoding of the ceiling or of a clamped target, except where it carries
  the previous block's \<^verbatim>\<open>nBits\<close> forward (lines 130-133).
\<close>

lemma V1_within_ceiling_or_carried:
  assumes "GetNextWorkRequiredV1 P pindexLast pblock algo = Inr r"
  shows "decoded_target r \<le> ProofOfWorkLimit P algo
         \<or> (\<exists>b n. pindexLast = Some b \<and> NetworkID P \<noteq> TESTNET
                \<and> V1_nInterval P (blk_nHeight b + 1) = Inr n
                \<and> (blk_nHeight b + 1) smod n \<noteq> 0 \<and> r = blk_nBits b)"
proof (cases pindexLast)
  case None
  then show ?thesis
    using assms by (simp add: GetNextWorkRequiredV1_def)
next
  case (Some b)
  show ?thesis
  proof (cases "V1_nInterval P (blk_nHeight b + 1)")
    case (Inl e)
    then show ?thesis
      using assms Some by (simp add: GetNextWorkRequiredV1_def)
  next
    case (Inr n)
    consider (testnet) "NetworkID P = TESTNET"
      | (zero) "NetworkID P \<noteq> TESTNET" "n = 0"
      | (carry) "NetworkID P \<noteq> TESTNET" "n \<noteq> 0" "(blk_nHeight b + 1) smod n \<noteq> 0"
      | (retarget) "NetworkID P \<noteq> TESTNET" "n \<noteq> 0" "(blk_nHeight b + 1) smod n = 0"
      by blast
    then show ?thesis
    proof cases
      case testnet
      then show ?thesis
        using assms Some Inr by (auto simp: GetNextWorkRequiredV1_def decoded_GetCompact_le)
    next
      case zero
      then show ?thesis
        using assms Some Inr by (simp add: GetNextWorkRequiredV1_def)
    next
      case carry
      then show ?thesis
        using assms Some Inr by (auto simp: GetNextWorkRequiredV1_def)
    next
      case retarget
      then have "\<exists>bnNew. r = GetCompact (if bnNew > ProofOfWorkLimit P algo
                                            then ProofOfWorkLimit P algo else bnNew)"
        using assms Some Inr
        by (auto simp: GetNextWorkRequiredV1_def Let_def split: option.splits sum.splits)
      then show ?thesis
        using clamped_GetCompact_le by blast
    qed
  qed
qed

lemma V2_fallback:
  assumes "walk_back (nat (NUM_ALGOS P * nAveragingInterval)) (Some b) = None
           \<or> GetLastBlockIndexForAlgo (Some b) algo = None"
  shows "GetNextWorkRequiredV2 P (Some b) pblock algo = Inr (GetCompact (ProofOfWorkLimit P algo))"
  using assms
  by (auto simp: GetNextWorkRequiredV2_def Let_def split: option.splits
      simp del: GetLastBlockIndexForAlgo.simps)

lemma V1_assertion:
  assumes "NetworkID P \<noteq> TESTNET" and "V1_nInterval P (blk_nHeight b + 1) = Inr n"
    and "n \<noteq> 0" and "(blk_nHeight b + 1) smod n = 0"
    and "walk_back (nat (if blk_nHeight b + 1 \<noteq> n then n else n - 1)) (Some b) = None"
  shows "GetNextWorkRequiredV1 P (Some b) pblock algo = Inl AssertionFailed"
  using assms by (simp add: GetNextWorkRequiredV1_def Let_def)

subsection \<open>The functions on example chains\<close>

lemma walk_back_example_chain:
  "walk_back n (example_chain nBits stride (n + k)) = example_chain nBits stride k"
  by (induction n) simp_all

lemma example_chain_no_algo_1:
  "GetLastBlockIndexForAlgo (example_chain nBits stride n) 1 = None"
  by (induction n) simp_all

lemma example_V1_retarget:
  "GetNextWorkRequiredV1 example_params (example_chain 0x1c00ffff 80 10) example_header 0
     = Inr 0x1c01cccb"
proof -
  have c: "example_chain 0x1c00ffff 80 10
             = Some (CBlockIndex 9 720 0x1c00ffff 0 720 (example_chain 0x1c00ffff 80 9))"
    by (simp add: eval_nat_numeral)
  have w: "walk_back 9 (example_chain 0x1c00ffff 80 10) = example_chain 0x1c00ffff 80 1"
    using walk_back_example_chain [of 9 "0x1c00ffff" 80 1] by simp
  have g: "example_chain 0x1c00ffff 80 1 = Some (CBlockIndex 0 0 0x1c00ffff 0 0 None)"
    by (simp add: eval_nat_numeral)
  have i: "V1_nInterval example_params 10 = Inr 10"
    "V1_nTargetTimespanCurrent example_params 10 = 400"
    by (simp_all add: V1_nInterval_def V1_nTargetTimespanCurrent_def int_div_def
        example_params_def signed_divide_int_def)
  have d: "decoded_target 0x1c00ffff = push_bit 200 0xffff"
    by (simp add: decoded_target_def SetCompact_1c00ffff)
  have a: "uint256_div (uint256_mul (push_bit 200 0xffff) 720) 400 = Inr (push_bit 200 0x1cccb)"
    by (simp add: uint256_div_def uint256_divide_def uint256_mul_def uint256_of_int64_def)
  have b: "bits (push_bit 200 0x1cccb) = Suc 216"
    by (rule bits_eqI) simp_all
  have e: "GetCompact (push_bit 200 0x1cccb) = 0x1c01cccb"
    using b by (simp add: GetCompact_def Let_def)
  have l: "\<not> (push_bit 200 0x1cccb :: uint256) > push_bit 208 0xffff"
    by simp
  show ?thesis
    unfolding GetNextWorkRequiredV1_def c
    using w [unfolded c] g i d a e l
    by (simp add: Let_def signed_modulo_int_def example_params_def)
qed

lemma example_adjust_positive: "adjust_positive (Suc (Suc 0)) (push_bit 200 0x15554)
             = Inr 0xae25a1f58d0fac687d6343eb1a1f58d0fac687d6343eb1a1f58cbc"
    by (simp add: uint256_div_def uint256_divide_def uint256_mul_def
        uint256_of_int64_def nLocalDifficultyAdjustment_def)

lemma example_V2_retarget:
  "GetNextWorkRequiredV2 example_params (example_chain 0x1c00ffff 120 31) example_header 0
     = Inr 0x1c00ae25"
proof -
  have c: "example_chain 0x1c00ffff 120 31
             = Some (CBlockIndex 30 3600 0x1c00ffff 0 3600 (example_chain 0x1c00ffff 120 30))"
    by (simp add: eval_nat_numeral)
  have w: "walk_back 30 (example_chain 0x1c00ffff 120 31) = example_chain 0x1c00ffff 120 1"
    using walk_back_example_chain [of 30 "0x1c00ffff" 120 1] by simp
  have g: "example_chain 0x1c00ffff 120 1 = Some (CBlockIndex 0 0 0x1c00ffff 0 0 None)"
    by (simp add: eval_nat_numeral)
  have d: "decoded_target 0x1c00ffff = push_bit 200 0xffff"
    by (simp add: decoded_target_def SetCompact_1c00ffff)
  have t: "nAveragingTargetTimespan = 1200" "nMinActualTimespan = 960"
    "nMaxActualTimespan = 1680" "nAveragingInterval = 10"
    by (simp_all add: nAveragingTargetTimespan_def nMinActualTimespan_def
        nMaxActualTimespan_def nAveragingInterval_def multiAlgoTargetSpacing_def
        nMaxAdjustUp_def nMaxAdjustDown_def signed_divide_int_def)
  have a: "uint256_div (uint256_mul (push_bit 200 0xffff) 1600) 1200 = Inr (push_bit 200 0x15554)"
    by (simp add: uint256_div_def uint256_divide_def uint256_mul_def uint256_of_int64_def)
  have b: "bits 0xae25a1f58d0fac687d6343eb1a1f58d0fac687d6343eb1a1f58cbc = Suc 215"
    by (rule bits_eqI) simp_all
  have e: "GetCompact 0xae25a1f58d0fac687d6343eb1a1f58d0fac687d6343eb1a1f58cbc = 0x1c00ae25"
    using b by (simp add: GetCompact_def Let_def)
  have l: "\<not> (0xae25a1f58d0fac687d6343eb1a1f58d0fac687d6343eb1a1f58cbc :: uint256)
             > push_bit 208 0xffff"
    by simp
  have p: "adjust_positive 2 (push_bit 200 0x15554)
             = Inr 0xae25a1f58d0fac687d6343eb1a1f58d0fac687d6343eb1a1f58cbc"
    using example_adjust_positive by (simp only: numeral_2_eq_2)
  show ?thesis
    unfolding GetNextWorkRequiredV2_def c
    using w [unfolded c] g d a p e l
    by (simp add: t Let_def signed_divide_int_def example_params_def del: adjust_positive.simps)
qed

lemma example_V2_short_chain:
  "walk_back (nat (NUM_ALGOS example_params * nAveragingInterval))
     (example_chain 0x1c00ffff 120 5) = None"
  by (simp add: eval_nat_numeral example_params_def nAveragingInterval_def)

lemma example_V1_truncated:
  "V1_nInterval example_params 20 = Inr 10"
  "20 smod (10 :: int) = 0"
  "walk_back 10 (Some (CBlockIndex 19 1520 0x1c00ffff 0 1520 None)) = None"
  by (simp_all add: V1_nInterval_def V1_nTargetTimespanCurrent_def int_div_def
      example_params_def signed_divide_int_def signed_modulo_int_def eval_nat_numeral)

subsection \<open>The ceiling\<close>

text \<open>
  C4 as stated fails for V1: on a height that is not a retarget boundary V1 returns the
  previous block's recorded \<^verbatim>\<open>nBits\<close> unchanged (line 132), so a history whose last
  block records a target above the ceiling gets that target back.
\<close>

theorem V1_carries_target_above_ceiling:
  "GetNextWorkRequiredV1 example_params (Some (CBlockIndex 10 800 0x1e00ffff 0 800 None))
     example_header 0 = Inr 0x1e00ffff
   \<and> \<not> decoded_target 0x1e00ffff \<le> ProofOfWorkLimit example_params 0"
proof -
  have i: "V1_nInterval example_params (10 + 1) = Inr 10"
    by (simp add: V1_nInterval_def V1_nTargetTimespanCurrent_def int_div_def
        example_params_def signed_divide_int_def)
  have "GetNextWorkRequiredV1 example_params (Some (CBlockIndex 10 800 0x1e00ffff 0 800 None))
          example_header 0 = Inr 0x1e00ffff"
    using i by (simp add: GetNextWorkRequiredV1_def Let_def signed_modulo_int_def example_params_def)
  moreover have "\<not> decoded_target 0x1e00ffff \<le> ProofOfWorkLimit example_params 0"
    by (simp add: decoded_target_def SetCompact_1e00ffff example_params_def)
  ultimately show ?thesis by simp
qed

text \<open>
  C4, amended. For every input history and every algorithm id,
  \<open>GetNextWorkRequiredV2\<close> returns a compact target, and it decodes to a target that is at
  most the algorithm's ceiling. Every compact target \<open>GetNextWorkRequiredV1\<close> returns
  decodes to at most the ceiling, unless the next height is not a multiple of the
  retarget interval on a network other than the test network: there V1 returns the
  previous block's recorded \<^verbatim>\<open>nBits\<close> unchanged.
\<close>

theorem retarget_within_ceiling:
  "(\<exists>r. GetNextWorkRequiredV2 P pindexLast pblock algo = Inr r
        \<and> decoded_target r \<le> ProofOfWorkLimit P algo)
   \<and> (\<forall>r. GetNextWorkRequiredV1 P pindexLast pblock algo = Inr r \<longrightarrow>
          decoded_target r \<le> ProofOfWorkLimit P algo
          \<or> (\<exists>b n. pindexLast = Some b \<and> NetworkID P \<noteq> TESTNET
                 \<and> V1_nInterval P (blk_nHeight b + 1) = Inr n
                 \<and> (blk_nHeight b + 1) smod n \<noteq> 0 \<and> r = blk_nBits b))"
  using V2_within_ceiling [of P pindexLast pblock algo]
    V1_within_ceiling_or_carried [of P pindexLast pblock algo]
  by blast

theorem retarget_within_ceiling_witness:
  "GetNextWorkRequiredV2 example_params (example_chain 0x1c00ffff 120 31) example_header 0
     = Inr 0x1c00ae25
   \<and> decoded_target 0x1c00ae25 \<le> ProofOfWorkLimit example_params 0
   \<and> GetNextWorkRequiredV1 example_params (example_chain 0x1c00ffff 80 10) example_header 0
     = Inr 0x1c01cccb
   \<and> decoded_target 0x1c01cccb \<le> ProofOfWorkLimit example_params 0"
proof -
  have c: "example_chain 0x1c00ffff 80 10
             = Some (CBlockIndex 9 720 0x1c00ffff 0 720 (example_chain 0x1c00ffff 80 9))"
    by (simp add: eval_nat_numeral)
  have i: "V1_nInterval example_params (9 + 1) = Inr 10" "(9 + 1) smod (10::int) = 0"
    by (simp_all add: V1_nInterval_def V1_nTargetTimespanCurrent_def int_div_def
        example_params_def signed_divide_int_def signed_modulo_int_def)
  have v2: "decoded_target 0x1c00ae25 \<le> ProofOfWorkLimit example_params 0"
    using retarget_within_ceiling
      [of example_params "example_chain 0x1c00ffff 120 31" example_header 0]
    by (simp add: example_V2_retarget)
  have "decoded_target 0x1c01cccb \<le> ProofOfWorkLimit example_params 0
        \<or> (\<exists>b n. example_chain 0x1c00ffff 80 10 = Some b
               \<and> V1_nInterval example_params (blk_nHeight b + 1) = Inr n
               \<and> (blk_nHeight b + 1) smod n \<noteq> 0)"
    using retarget_within_ceiling
      [of example_params "example_chain 0x1c00ffff 80 10" example_header 0]
      example_V1_retarget
    by blast
  then have v1: "decoded_target 0x1c01cccb \<le> ProofOfWorkLimit example_params 0"
    using i by (auto simp: c)
  show ?thesis
    using v1 v2 example_V1_retarget example_V2_retarget by simp
qed

subsection \<open>Too few ancestors\<close>

text \<open>
  C5 as stated fails for V1, which has no fallback to the ceiling. At the first retarget
  (next height equal to the interval, here 10) the last block has only 9 ancestors, one
  fewer than the interval; V1 walks back to the block of height 0 and returns an ordinary
  retarget, \<^verbatim>\<open>0x1c01cccb\<close>, not the ceiling \<^verbatim>\<open>0x1d00ffff\<close>. When the walk runs off
  the chain, the assertion of line 145 fails and the call aborts.
\<close>

theorem V1_no_fallback:
  "walk_back 10 (example_chain 0x1c00ffff 80 10) = None
   \<and> GetNextWorkRequiredV1 example_params (example_chain 0x1c00ffff 80 10) example_header 0
       = Inr 0x1c01cccb
   \<and> GetCompact (ProofOfWorkLimit example_params 0) = 0x1d00ffff
   \<and> GetNextWorkRequiredV1 example_params
         (Some (CBlockIndex 19 1520 0x1c00ffff 0 1520 None)) example_header 0
       = Inl AssertionFailed"
proof -
  have "walk_back 10 (example_chain 0x1c00ffff 80 10) = None"
    using walk_back_example_chain [of 10 "0x1c00ffff" 80 0] by simp
  moreover have "GetCompact (ProofOfWorkLimit example_params 0) = 0x1d00ffff"
    using GetCompact_ceiling_example by (simp add: example_params_def)
  moreover have "GetNextWorkRequiredV1 example_params
         (Some (CBlockIndex 19 1520 0x1c00ffff 0 1520 None)) example_header 0
       = Inl AssertionFailed"
    using V1_assertion [where P = example_params and n = 10 and algo = 0
        and b = "CBlockIndex 19 1520 0x1c00ffff 0 1520 None" and pblock = example_header]
      example_V1_truncated
    by (simp add: example_params_def)
  ultimately show ?thesis
    using example_V1_retarget by simp
qed

text \<open>
  C5, amended. When \<open>GetNextWorkRequiredV2\<close> is computed for a block with fewer than
  \<open>NUM_ALGOS * 10\<close> ancestors, or with no block of the target algorithm at or before it,
  it returns the algorithm's ceiling in compact form and raises no error.
  \<open>GetNextWorkRequiredV1\<close> does not recover: when its retarget fires on a network other
  than the test network and the walk back (over the interval, or the interval less one
  at the first retarget) runs off the chain, the assertion on the window-start block
  fails and the call aborts.
\<close>

theorem insufficient_history:
  "(walk_back (nat (NUM_ALGOS P * nAveragingInterval)) (Some b) = None
      \<or> GetLastBlockIndexForAlgo (Some b) algo = None
     \<longrightarrow> GetNextWorkRequiredV2 P (Some b) pblock algo
           = Inr (GetCompact (ProofOfWorkLimit P algo)))
   \<and> (NetworkID P \<noteq> TESTNET \<and> V1_nInterval P (blk_nHeight b + 1) = Inr n \<and> n \<noteq> 0
      \<and> (blk_nHeight b + 1) smod n = 0
      \<and> walk_back (nat (if blk_nHeight b + 1 \<noteq> n then n else n - 1)) (Some b) = None
     \<longrightarrow> GetNextWorkRequiredV1 P (Some b) pblock algo = Inl AssertionFailed)"
  using V2_fallback [of P b algo pblock] V1_assertion [of P b n pblock algo]
  by blast

theorem insufficient_history_witness:
  "GetNextWorkRequiredV2 example_params (example_chain 0x1c00ffff 120 5) example_header 0
     = Inr 0x1d00ffff
   \<and> GetNextWorkRequiredV2 example_params (example_chain 0x1c00ffff 120 31) example_header 1
     = Inr 0x1d00ffff
   \<and> GetNextWorkRequiredV1 example_params
         (Some (CBlockIndex 19 1520 0x1c00ffff 0 1520 None)) example_header 0
       = Inl AssertionFailed"
proof -
  have c5: "example_chain 0x1c00ffff 120 5
             = Some (CBlockIndex 4 480 0x1c00ffff 0 480 (example_chain 0x1c00ffff 120 4))"
    by (simp add: eval_nat_numeral)
  have c31: "example_chain 0x1c00ffff 120 31
             = Some (CBlockIndex 30 3600 0x1c00ffff 0 3600 (example_chain 0x1c00ffff 120 30))"
    by (simp add: eval_nat_numeral)
  have g: "GetCompact (ProofOfWorkLimit example_params algo) = 0x1d00ffff" for algo
    using GetCompact_ceiling_example by (simp add: example_params_def)
  have n: "NetworkID example_params \<noteq> TESTNET"
    by (simp add: example_params_def)
  have a: "GetNextWorkRequiredV2 example_params (example_chain 0x1c00ffff 120 5) example_header 0
             = Inr 0x1d00ffff"
    using insufficient_history [of example_params "CBlockIndex 4 480 0x1c00ffff 0 480
        (example_chain 0x1c00ffff 120 4)" 0 example_header]
      example_V2_short_chain
    by (simp only: c5 g simp_thms)
  have b: "GetNextWorkRequiredV2 example_params (example_chain 0x1c00ffff 120 31) example_header 1
             = Inr 0x1d00ffff"
    using insufficient_history [of example_params "CBlockIndex 30 3600 0x1c00ffff 0 3600
        (example_chain 0x1c00ffff 120 30)" 1 example_header]
      example_chain_no_algo_1 [of "0x1c00ffff" 120 31]
    by (simp only: c31 g simp_thms)
  have c: "GetNextWorkRequiredV1 example_params
         (Some (CBlockIndex 19 1520 0x1c00ffff 0 1520 None)) example_header 0
       = Inl AssertionFailed"
    using insufficient_history [where P = example_params and n = 10 and algo = 0
        and b = "CBlockIndex 19 1520 0x1c00ffff 0 1520 None" and pblock = example_header]
      example_V1_truncated n
    by simp
  show ?thesis
    using a b c by simp
qed

end
